theory Spec2Isabelle
  imports Complex_Main
begin

section \<open>ECMAScript Number values\<close>

text \<open>
  A JavaScript number is an IEEE 754 binary64 value: a NaN, the two infinities, the two
  zeros, or a finite non-zero value.  \<open>Fin 0\<close> is \<open>+0\<close>, \<open>NegZero\<close> is \<open>-0\<close>, and
  \<open>Fin x\<close> carries the exact mathematical value of a finite number.
\<close>

datatype number = NaN | PosInf | NegInf | NegZero | Fin real

text \<open>
  The values the program handles come out of \<open>JSON.parse\<close> and out of DOM attributes:
  \<open>undefined\<close>, \<open>null\<close>, booleans, numbers, strings, arrays and plain objects (the list
  of an object's own properties).  Strings are byte strings.
\<close>

datatype jsval =
    Undefined
  | Null
  | Bool bool
  | Num number
  | Str string
  | Arr "jsval list"
  | Obj "(string \<times> jsval) list"

text \<open>
  What the host platform decides and the program does not: the approximation that
  \<open>Math.pow\<close> returns for a finite non-zero base and a finite non-zero exponent, the
  digits of \<open>Number::toString\<close> for a finite positive number, the text of
  \<open>new Date(v).toLocaleString()\<close>, and the messages of the errors the platform throws
  (reading a property of \<open>null\<close> or \<open>undefined\<close>, calling what is no function, an
  aborted request).
\<close>

record platform =
  approx_pow :: "real \<Rightarrow> real \<Rightarrow> number"
  number_digits :: "real \<Rightarrow> string"
  date_text :: "jsval \<Rightarrow> string"
  null_read_text :: "jsval \<Rightarrow> string \<Rightarrow> string"
  not_function_text :: "string \<Rightarrow> string"
  abort_text :: string

definition pow2 :: "int \<Rightarrow> real" where
  "pow2 e = (if 0 \<le> e then 2 ^ nat e else 1 / 2 ^ nat (- e))"

text \<open>The binary exponent of a positive real: \<open>pow2 (ilog2 x) \<le> x < pow2 (ilog2 x + 1)\<close>.\<close>

function ilog2 :: "real \<Rightarrow> int" where
  "ilog2 x = (if 2 \<le> x then ilog2 (x / 2) + 1
              else if 0 < x \<and> x < 1 then ilog2 (2 * x) - 1 else 0)"
  by pat_completeness auto
termination
proof (relation "measure (\<lambda>x. if 1 \<le> x then nat \<lfloor>x\<rfloor> else nat \<lceil>1 / x\<rceil>)")
  show "wf (measure (\<lambda>x::real. if 1 \<le> x then nat \<lfloor>x\<rfloor> else nat \<lceil>1 / x\<rceil>))"
    by simp
next
  fix x :: real
  assume "2 \<le> x"
  then have "\<lfloor>x / 2\<rfloor> < \<lfloor>x\<rfloor>" by linarith
  with \<open>2 \<le> x\<close>
  show "(x / 2, x) \<in> measure (\<lambda>x. if 1 \<le> x then nat \<lfloor>x\<rfloor> else nat \<lceil>1 / x\<rceil>)"
    by simp
next
  fix x :: real
  assume a: "\<not> 2 \<le> x" "0 < x \<and> x < 1"
  then have y: "1 < 1 / x" by simp
  show "(2 * x, x) \<in> measure (\<lambda>x. if 1 \<le> x then nat \<lfloor>x\<rfloor> else nat \<lceil>1 / x\<rceil>)"
  proof (cases "1 \<le> 2 * x")
    case True
    with a have "\<lfloor>2 * x\<rfloor> = 1" by linarith
    moreover from y have "2 \<le> \<lceil>1 / x\<rceil>" by linarith
    ultimately show ?thesis using True a by simp
  next
    case False
    with a have "2 < 1 / x" by (simp add: field_simps)
    have half: "\<lceil>y / 2\<rceil> < \<lceil>y\<rceil>" if "2 < y" for y :: real
      using that by linarith
    from \<open>2 < 1 / x\<close> have "\<lceil>1 / x / 2\<rceil> < \<lceil>1 / x\<rceil>"
      by (rule half)
    moreover have "\<lceil>1 / (2 * x)\<rceil> = \<lceil>1 / x / 2\<rceil>" by (simp add: field_simps)
    moreover have "0 < \<lceil>1 / x\<rceil>" using y by linarith
    ultimately show ?thesis using False a by simp
  qed
qed

declare ilog2.simps [simp del]

definition round_half_even :: "real \<Rightarrow> int" where
  "round_half_even y =
     (let f = \<lfloor>y\<rfloor> in
      if y - of_int f < 1 / 2 then f
      else if 1 / 2 < y - of_int f then f + 1
      else if even f then f else f + 1)"

text \<open>
  Rounding of an exact result to binary64 (roundTiesToEven): 53 significant bits, the
  smallest exponent \<open>-1022\<close> (below it the spacing stays \<open>2^-1074\<close>), overflow to an
  infinity from \<open>2^1024\<close> on, and a result that rounds to zero keeps the sign of \<open>x\<close>.
\<close>

definition round_to_double :: "real \<Rightarrow> number" where
  "round_to_double x =
     (if x = 0 then Fin 0
      else let u = pow2 (max (ilog2 \<bar>x\<bar>) (- 1022) - 52);
               r = of_int (round_half_even (x / u)) * u
           in if 2 ^ 1024 \<le> r then PosInf
              else if r \<le> - (2 ^ 1024) then NegInf
              else if r = 0 then (if x < 0 then NegZero else Fin 0)
              else Fin r)"




fun is_neg :: "number \<Rightarrow> bool" where
  "is_neg NegInf = True"
| "is_neg NegZero = True"
| "is_neg (Fin x) = (x < 0)"
| "is_neg _ = False"

fun is_inf :: "number \<Rightarrow> bool" where
  "is_inf PosInf = True"
| "is_inf NegInf = True"
| "is_inf _ = False"

fun is_zero :: "number \<Rightarrow> bool" where
  "is_zero NegZero = True"
| "is_zero (Fin x) = (x = 0)"
| "is_zero _ = False"

fun val :: "number \<Rightarrow> real" where
  "val (Fin x) = x"
| "val _ = 0"

definition zero_of :: "bool \<Rightarrow> number" where
  "zero_of neg = (if neg then NegZero else Fin 0)"

definition inf_of :: "bool \<Rightarrow> number" where
  "inf_of neg = (if neg then NegInf else PosInf)"




definition num_mul :: "number \<Rightarrow> number \<Rightarrow> number" where
  "num_mul a b =
     (if a = NaN \<or> b = NaN then NaN
      else if is_inf a \<or> is_inf b then
        (if is_zero a \<or> is_zero b then NaN else inf_of (is_neg a \<noteq> is_neg b))
      else if is_zero a \<or> is_zero b then zero_of (is_neg a \<noteq> is_neg b)
      else round_to_double (val a * val b))"

definition num_div :: "number \<Rightarrow> number \<Rightarrow> number" where
  "num_div a b =
     (if a = NaN \<or> b = NaN then NaN
      else if is_inf a then (if is_inf b then NaN else inf_of (is_neg a \<noteq> is_neg b))
      else if is_inf b then zero_of (is_neg a \<noteq> is_neg b)
      else if is_zero b then (if is_zero a then NaN else inf_of (is_neg a \<noteq> is_neg b))
      else if is_zero a then zero_of (is_neg a \<noteq> is_neg b)
      else round_to_double (val a / val b))"

text \<open>
  The relational operator \<open>a < b\<close>: false whenever an operand is NaN; the two zeros
  compare equal.
\<close>

fun num_lt :: "number \<Rightarrow> number \<Rightarrow> bool" where
  "num_lt NaN _ = False"
| "num_lt _ NaN = False"
| "num_lt PosInf _ = False"
| "num_lt _ PosInf = True"
| "num_lt _ NegInf = False"
| "num_lt NegInf _ = True"
| "num_lt a b = (val a < val b)"

definition num_gt :: "number \<Rightarrow> number \<Rightarrow> bool" where
  "num_gt a b = num_lt b a"

subsection \<open>The Math functions the program calls\<close>


text \<open>
  \<open>Math.round\<close>: the nearest integer, a tie going towards \<open>+\<infinity>\<close>; a negative argument
  that rounds to zero gives \<open>-0\<close>.
\<close>

fun Math_round :: "number \<Rightarrow> number" where
  "Math_round (Fin x) =
     (let r = \<lfloor>x + 1 / 2\<rfloor> in
      if r = 0 then (if x < 0 then NegZero else Fin 0) else Fin (of_int r))"
| "Math_round n = n"




section \<open>Conversions between values\<close>

text \<open>ToBoolean: what \<open>||\<close>, \<open>!\<close> and \<open>if\<close> test.\<close>

fun truthy :: "jsval \<Rightarrow> bool" where
  "truthy Undefined = False"
| "truthy Null = False"
| "truthy (Bool b) = b"
| "truthy (Num n) = (n \<noteq> NaN \<and> \<not> is_zero n)"
| "truthy (Str s) = (s \<noteq> [])"
| "truthy (Arr xs) = True"
| "truthy (Obj ps) = True"

text \<open>\<open>a || b\<close> and \<open>a ?? b\<close>.\<close>

definition or_else :: "jsval \<Rightarrow> jsval \<Rightarrow> jsval" where
  "or_else a b = (if truthy a then a else b)"


subsection \<open>Strings to numbers\<close>

definition is_ws :: "char \<Rightarrow> bool" where
  "is_ws c = (c \<in> set [CHR 0x09, CHR 0x0A, CHR 0x0B, CHR 0x0C, CHR 0x0D, CHR 0x20])"

definition trim :: "string \<Rightarrow> string" where
  "trim s = rev (dropWhile is_ws (rev (dropWhile is_ws s)))"

definition is_digit :: "char \<Rightarrow> bool" where
  "is_digit c = (48 \<le> (of_char c :: nat) \<and> (of_char c :: nat) \<le> 57)"

text \<open>The value of a digit in a radix up to 16; \<open>None\<close> for any other character.\<close>

definition digit_in :: "nat \<Rightarrow> char \<Rightarrow> nat option" where
  "digit_in radix c =
     (let k = (of_char c :: nat);
          v = (if 48 \<le> k \<and> k \<le> 57 then Some (k - 48)
               else if 97 \<le> k \<and> k \<le> 102 then Some (k - 87)
               else if 65 \<le> k \<and> k \<le> 70 then Some (k - 55)
               else None)
      in case v of None \<Rightarrow> None | Some d \<Rightarrow> if d < radix then Some d else None)"

fun digits_val :: "nat \<Rightarrow> nat \<Rightarrow> string \<Rightarrow> nat option" where
  "digits_val radix acc [] = Some acc"
| "digits_val radix acc (c # cs) =
     (case digit_in radix c of
        None \<Rightarrow> None
      | Some d \<Rightarrow> digits_val radix (radix * acc + d) cs)"

text \<open>A non-empty run of digits in the radix, as a natural number.\<close>

definition number_in :: "nat \<Rightarrow> string \<Rightarrow> nat option" where
  "number_in radix cs = (if cs = [] then None else digits_val radix 0 cs)"

definition pow10 :: "int \<Rightarrow> real" where
  "pow10 e = (if 0 \<le> e then 10 ^ nat e else 1 / 10 ^ nat (- e))"

text \<open>The exponent part of a decimal literal: nothing, or \<open>e\<close>/\<open>E\<close>, a sign, digits.\<close>

definition exponent_part :: "string \<Rightarrow> int option" where
  "exponent_part cs =
     (case cs of
        [] \<Rightarrow> Some 0
      | c # r \<Rightarrow>
          if c = CHR ''e'' \<or> c = CHR ''E'' then
            (case r of
               [] \<Rightarrow> None
             | d # r' \<Rightarrow>
                 if d = CHR ''-'' then map_option (\<lambda>n. - int n) (number_in 10 r')
                 else if d = CHR ''+'' then map_option int (number_in 10 r')
                 else map_option int (number_in 10 r))
          else None)"

text \<open>
  StrUnsignedDecimalLiteral: \<open>Infinity\<close>, or digits, an optional point and digits, an
  optional exponent, with a digit on at least one side of the point.  The result is
  the exact value, or \<open>None\<close> where the text is no literal.
\<close>

definition unsigned_decimal :: "string \<Rightarrow> real option" where
  "unsigned_decimal cs =
     (let ip = takeWhile is_digit cs;
          r1 = dropWhile is_digit cs;
          fp = (case r1 of c # r \<Rightarrow> if c = CHR ''.'' then takeWhile is_digit r else [] | [] \<Rightarrow> []);
          r2 = (case r1 of c # r \<Rightarrow> if c = CHR ''.'' then dropWhile is_digit r else r1 | [] \<Rightarrow> [])
      in if ip = [] \<and> fp = [] then None
         else case (digits_val 10 0 (ip @ fp), exponent_part r2) of
                (Some m, Some e) \<Rightarrow> Some (real m * pow10 (e - int (length fp)))
              | _ \<Rightarrow> None)"

definition signed_decimal :: "bool \<Rightarrow> string \<Rightarrow> number" where
  "signed_decimal neg cs =
     (if cs = ''Infinity'' then inf_of neg
      else case unsigned_decimal cs of
             None \<Rightarrow> NaN
           | Some v \<Rightarrow> if v = 0 then zero_of neg
                       else round_to_double (if neg then - v else v))"

definition non_decimal :: "nat \<Rightarrow> string \<Rightarrow> number" where
  "non_decimal radix cs =
     (case number_in radix cs of None \<Rightarrow> NaN | Some n \<Rightarrow> round_to_double (real n))"

text \<open>StringToNumber: white space around the literal is dropped, the empty text is \<open>+0\<close>.\<close>

definition StringToNumber :: "string \<Rightarrow> number" where
  "StringToNumber s =
     (case trim s of
        [] \<Rightarrow> Fin 0
      | c # r \<Rightarrow>
          if c = CHR ''-'' then signed_decimal True r
          else if c = CHR ''+'' then signed_decimal False r
          else if c = CHR ''0'' \<and> r \<noteq> [] \<and> hd r \<in> set ''xX'' then non_decimal 16 (tl r)
          else if c = CHR ''0'' \<and> r \<noteq> [] \<and> hd r \<in> set ''oO'' then non_decimal 8 (tl r)
          else if c = CHR ''0'' \<and> r \<noteq> [] \<and> hd r \<in> set ''bB'' then non_decimal 2 (tl r)
          else signed_decimal False (c # r))"

subsection \<open>Values to strings and to numbers\<close>

fun join :: "string \<Rightarrow> string list \<Rightarrow> string" where
  "join sep [] = []"
| "join sep [x] = x"
| "join sep (x # y # ys) = x @ sep @ join sep (y # ys)"

text \<open>Number::toString in radix 10; the digits of a finite non-zero number are the platform's.\<close>

fun Number_toString :: "platform \<Rightarrow> number \<Rightarrow> string" where
  "Number_toString P NaN = ''NaN''"
| "Number_toString P PosInf = ''Infinity''"
| "Number_toString P NegInf = ''-Infinity''"
| "Number_toString P NegZero = ''0''"
| "Number_toString P (Fin x) =
     (if x = 0 then ''0''
      else if x < 0 then ''-'' @ number_digits P (- x)
      else number_digits P x)"

text \<open>
  ToString.  An array is its elements joined by commas, \<open>null\<close> and \<open>undefined\<close>
  elements giving the empty string; a plain object is \<open>[object Object]\<close>.
\<close>

fun ToString :: "platform \<Rightarrow> jsval \<Rightarrow> string" where
  "ToString P Undefined = ''undefined''"
| "ToString P Null = ''null''"
| "ToString P (Bool b) = (if b then ''true'' else ''false'')"
| "ToString P (Num n) = Number_toString P n"
| "ToString P (Str s) = s"
| "ToString P (Arr xs) =
     join '','' (map (\<lambda>x. if x = Undefined \<or> x = Null then [] else ToString P x) xs)"
| "ToString P (Obj ps) = ''[object Object]''"

text \<open>ToNumber, which is what \<open>Number(v)\<close> returns.\<close>

fun ToNumber :: "platform \<Rightarrow> jsval \<Rightarrow> number" where
  "ToNumber P Undefined = NaN"
| "ToNumber P Null = Fin 0"
| "ToNumber P (Bool b) = (if b then Fin 1 else Fin 0)"
| "ToNumber P (Num n) = n"
| "ToNumber P (Str s) = StringToNumber s"
| "ToNumber P v = StringToNumber (ToString P v)"

section \<open>Locale formatting of numbers\<close>

text \<open>
  \<open>Number.prototype.toLocaleString(undefined, options)\<close> in the \<open>en-US\<close> locale, as
  ECMA-402 lays it out for the decimal style: the magnitude is rounded half away from
  zero to \<open>maxFD\<close> fraction digits, trailing zeros are dropped down to \<open>minFD\<close> digits,
  the integer digits are grouped in threes by commas, and a negative number or \<open>-0\<close>
  carries a minus sign.
\<close>

definition digit_char :: "nat \<Rightarrow> char" where
  "digit_char d =
     (if d = 0 then CHR ''0'' else if d = 1 then CHR ''1'' else if d = 2 then CHR ''2''
      else if d = 3 then CHR ''3'' else if d = 4 then CHR ''4'' else if d = 5 then CHR ''5''
      else if d = 6 then CHR ''6'' else if d = 7 then CHR ''7'' else if d = 8 then CHR ''8''
      else CHR ''9'')"

fun digits_of :: "nat \<Rightarrow> string" where
  "digits_of n = (if n < 10 then [digit_char n] else digits_of (n div 10) @ [digit_char (n mod 10)])"

declare digits_of.simps [simp del]

fun group_rev :: "string \<Rightarrow> string" where
  "group_rev (a # b # c # d # r) = a # b # c # CHR '','' # group_rev (d # r)"
| "group_rev cs = cs"

definition group3 :: "string \<Rightarrow> string" where
  "group3 cs = rev (group_rev (rev cs))"

definition pad_left :: "nat \<Rightarrow> string \<Rightarrow> string" where
  "pad_left w cs = replicate (w - length cs) CHR ''0'' @ cs"

text \<open>Trailing zeros of the fraction go, as long as more than \<open>minFD\<close> digits are left.\<close>

fun strip_rev :: "nat \<Rightarrow> string \<Rightarrow> string" where
  "strip_rev minFD [] = []"
| "strip_rev minFD (c # cs) =
     (if c = CHR ''0'' \<and> minFD < Suc (length cs) then strip_rev minFD cs else c # cs)"

definition strip_zeros :: "nat \<Rightarrow> string \<Rightarrow> string" where
  "strip_zeros minFD cs = rev (strip_rev minFD (rev cs))"

definition format_fixed :: "nat \<Rightarrow> nat \<Rightarrow> real \<Rightarrow> string" where
  "format_fixed minFD maxFD x =
     (let n = nat \<lfloor>\<bar>x\<bar> * 10 ^ maxFD + 1 / 2\<rfloor>;
          ip = digits_of (n div 10 ^ maxFD);
          fp = (if maxFD = 0 then []
                else strip_zeros minFD (pad_left maxFD (digits_of (n mod 10 ^ maxFD))))
      in group3 ip @ (if fp = [] then [] else CHR ''.'' # fp))"

definition infinity_sign :: string where
  "infinity_sign = [CHR 0xE2, CHR 0x88, CHR 0x9E]"

fun toLocaleString :: "nat \<Rightarrow> nat \<Rightarrow> number \<Rightarrow> string" where
  "toLocaleString minFD maxFD NaN = ''NaN''"
| "toLocaleString minFD maxFD PosInf = infinity_sign"
| "toLocaleString minFD maxFD NegInf = CHR ''-'' # infinity_sign"
| "toLocaleString minFD maxFD NegZero = CHR ''-'' # format_fixed minFD maxFD 0"
| "toLocaleString minFD maxFD (Fin x) =
     (if x < 0 then CHR ''-'' # format_fixed minFD maxFD x else format_fixed minFD maxFD x)"


section \<open>The dashboard: counters\<close>


text \<open>
  \<open>formatValue(value, format)\<close>: \<open>n = Number(value || 0)\<close>, then two fixed fraction digits
  for \<open>money\<close>, at most one for \<open>percent\<close>, and \<open>Math.round(n).toLocaleString()\<close>
  (no options: at most three fraction digits) for anything else.
\<close>

definition formatValue :: "platform \<Rightarrow> jsval \<Rightarrow> string \<Rightarrow> string" where
  "formatValue P v format =
     (let n = ToNumber P (or_else v (Num (Fin 0))) in
      if format = ''money'' then toLocaleString 2 2 n
      else if format = ''percent'' then toLocaleString 0 1 n
      else toLocaleString 0 3 (Math_round n))"

text \<open>
  A KPI element of the page: its class list, its \<open>data-key\<close> and \<open>data-format\<close>
  attributes (\<open>None\<close> where \<open>getAttribute\<close> returns \<open>null\<close>) and its text.
\<close>

record element =
  classList :: "string list"
  data_key :: "string option"
  data_format :: "string option"
  textContent :: string

text \<open>The options object of \<open>countUp\<close>; a property that is not there is \<open>None\<close>.\<close>

record count_opts =
  opt_format :: "string option"
  opt_duration :: "number option"

text \<open>
  The variables that \<open>tick\<close> closes over: \<open>start\<close>, \<open>from\<close>, \<open>to\<close>, \<open>format\<close>
  and \<open>duration\<close>.
\<close>

record animation =
  anim_start :: number
  anim_from :: number
  anim_to :: number
  anim_format :: string
  anim_duration :: number


text \<open>
  \<open>countUp(el, endValue, opts)\<close>.  \<open>prefersReduced\<close> is the media query read once at
  start-up and \<open>start\<close> is what \<open>performance.now()\<close> returns.  The result is the element
  and, where \<open>requestAnimationFrame(tick)\<close> was called, the animation that was scheduled.
\<close>

definition countUp ::
  "platform \<Rightarrow> bool \<Rightarrow> number \<Rightarrow> element \<Rightarrow> jsval \<Rightarrow> count_opts option
     \<Rightarrow> element \<times> animation option" where
  "countUp P prefersReduced start el endValue opts =
     (let format = (case Option.bind opts opt_format of
                      Some f \<Rightarrow> if f \<noteq> [] then f else ''int''
                    | None \<Rightarrow> ''int'');
          duration = (case Option.bind opts opt_duration of
                        Some d \<Rightarrow> if truthy (Num d) then d else Fin 750
                      | None \<Rightarrow> Fin 750)
      in if prefersReduced
         then (el\<lparr>textContent := formatValue P endValue format\<rparr>, None)
         else (el, Some \<lparr>anim_start = start, anim_from = Fin 0,
                          anim_to = ToNumber P (or_else endValue (Num (Fin 0))),
                          anim_format = format, anim_duration = duration\<rparr>))"


text \<open>
  Reading a property of a value that is neither \<open>undefined\<close> nor \<open>null\<close>: the own
  properties of an object, the elements and the length of an array or a string.
  Properties inherited from the built-in prototypes are left out.
\<close>

definition index_of :: "string \<Rightarrow> nat option" where
  "index_of key = (case number_in 10 key of
                     Some i \<Rightarrow> if digits_of i = key then Some i else None
                   | None \<Rightarrow> None)"

fun get_prop :: "jsval \<Rightarrow> string \<Rightarrow> jsval" where
  "get_prop (Obj ps) key = (case map_of ps key of Some v \<Rightarrow> v | None \<Rightarrow> Undefined)"
| "get_prop (Arr xs) key =
     (if key = ''length'' then Num (Fin (real (length xs)))
      else case index_of key of
             Some i \<Rightarrow> if i < length xs then xs ! i else Undefined
           | None \<Rightarrow> Undefined)"
| "get_prop (Str cs) key =
     (if key = ''length'' then Num (Fin (real (length cs)))
      else case index_of key of
             Some i \<Rightarrow> if i < length cs then Str [cs ! i] else Undefined
           | None \<Rightarrow> Undefined)"
| "get_prop v key = Undefined"





text \<open>
  \<open>percentage\<close> in \<open>loadDetails\<close>:
  \<open>data.total_debt > 0 ? Math.round((data.total_paid / data.total_debt) * 100) : 0\<close>.
\<close>

definition percentage :: "platform \<Rightarrow> jsval \<Rightarrow> jsval \<Rightarrow> number" where
  "percentage P total_debt total_paid =
     (if num_gt (ToNumber P total_debt) (Fin 0)
      then Math_round (num_mul (num_div (ToNumber P total_paid) (ToNumber P total_debt)) (Fin 100))
      else Fin 0)"

section \<open>The dashboard: promises, errors and the page\<close>

record js_error =
  err_name :: string
  err_message :: string

datatype 'a settled = Fulfilled 'a | Rejected js_error

text \<open>A response: its \<open>ok\<close> flag and what \<open>response.json()\<close> settles with.\<close>

record response =
  resp_ok :: bool
  resp_json :: "jsval settled"

text \<open>\<open>new Error(message)\<close>.\<close>

definition Error_new :: "platform \<Rightarrow> jsval \<Rightarrow> js_error" where
  "Error_new P message = \<lparr>err_name = ''Error'', err_message = ToString P message\<rparr>"

text \<open>\<open>v.key\<close>, which throws a TypeError on \<open>null\<close> and \<open>undefined\<close>, and \<open>v?.key\<close>.\<close>

definition read_prop :: "platform \<Rightarrow> jsval \<Rightarrow> string \<Rightarrow> js_error + jsval" where
  "read_prop P v key =
     (if v = Undefined \<or> v = Null
      then Inl \<lparr>err_name = ''TypeError'', err_message = null_read_text P v key\<rparr>
      else Inr (get_prop v key))"

definition opt_prop :: "jsval \<Rightarrow> string \<Rightarrow> jsval" where
  "opt_prop v key = (if v = Undefined \<or> v = Null then Undefined else get_prop v key)"

definition nl :: string where
  "nl = [CHR 0x0A]"

subsection \<open>The metrics request\<close>






text \<open>
  \<open>fetchMetricsOnce\<close> from the moment \<open>fetch\<close> has settled: the rejection of \<open>fetch\<close> or
  of \<open>res.json()\<close> goes through, and so does the TypeError of reading \<open>data.ok\<close> on
  \<open>null\<close>; then the test \<open>!res.ok || !data.ok || !data.counts\<close>.
\<close>

definition fetchMetricsOnce_settle :: "platform \<Rightarrow> response settled \<Rightarrow> jsval settled" where
  "fetchMetricsOnce_settle P outcome =
     (case outcome of
        Rejected e \<Rightarrow> Rejected e
      | Fulfilled res \<Rightarrow>
          (case resp_json res of
             Rejected e \<Rightarrow> Rejected e
           | Fulfilled data \<Rightarrow>
               if \<not> resp_ok res
               then Rejected (Error_new P (or_else (opt_prop data ''error'')
                                            (Str ''Failed to fetch metrics.'')))
               else (case read_prop P data ''ok'' of
                       Inl e \<Rightarrow> Rejected e
                     | Inr ok \<Rightarrow>
                         if \<not> truthy ok \<or> \<not> truthy (get_prop data ''counts'')
                         then Rejected (Error_new P (or_else (opt_prop data ''error'')
                                                      (Str ''Failed to fetch metrics.'')))
                         else Fulfilled (get_prop data ''counts''))))"









subsection \<open>The details view\<close>

text \<open>
  The page as \<open>loadDetails\<close> sees it: the markup of the chart and activity regions, the
  items appended to the list \<open>activityList\<close> inside the activity region, the calls of
  \<open>renderCharts\<close> handed to \<open>requestAnimationFrame\<close>, and what \<open>console.error\<close> got.
  Both regions exist.
\<close>

record list_item =
  className :: string
  innerHTML :: string

record page =
  chart_section :: string
  activity_section :: string
  activity_list :: "list_item list"
  frame_requests :: "(jsval \<times> number) list"
  console_errors :: "js_error list"

definition chart_markup :: "string \<Rightarrow> string \<Rightarrow> string" where
  \<open>chart_markup total_debt total_paid =
     concat
      [nl,
       ''          <div class="chart-card mb-4">'',
       nl,
       ''            <h6 class="text-center">dY"S Monthly Orders Overview</h6>'',
       nl,
       ''            <div class="chart-container"><canvas id="ordersChart"></canvas></div>'',
       nl,
       ''          </div>'',
       nl,
       ''          <div class="chart-card mb-4">'',
       nl,
       ''            <h6 class="text-center">dY?+ Top Clients by Orders</h6>'',
       nl,
       ''            <div class="chart-container"><canvas id="topClientsChart"></canvas></div>'',
       nl,
       ''          </div>'',
       nl,
       ''          <div class="chart-card mb-4 text-center">'',
       nl,
       ''            <h6 class="mb-3">dY'',
       [CHR 0x27, CHR 0xC3, CHR 0x85, CHR 0xC2, CHR 0xB3],
       '' Collection Rate</h6>'',
       nl,
       ''            <div class="chart-container d-flex justify-content-center">'',
       nl,
       ''              <canvas id="debtChart" style="max-width: 250px;"></canvas>'',
       nl,
       ''            </div>'',
       nl,
       ''            <p class="mt-3">Out of GHS '',
       total_debt,
       '', you'',
       [CHR 0x27],
       ''ve collected GHS '',
       total_paid,
       ''</p>'',
       nl,
       ''          </div>'',
       nl,
       ''        '']\<close>

definition activity_header :: "string" where
  \<open>activity_header =
     concat
      [nl,
       ''            <div class="chart-card shadow-sm rounded p-3">'',
       nl,
       ''              <h6 class="mb-3 fw-bold">dY'',
       [CHR 0x07, CHR 0x27],
       '' Recent Activities</h6>'',
       nl,
       ''              <ul class="list-group list-group-flush" id="activityList"></ul>'',
       nl,
       ''            </div>'',
       nl,
       ''          '']\<close>

definition item_markup :: "string \<Rightarrow> string \<Rightarrow> string \<Rightarrow> string \<Rightarrow> string" where
  \<open>item_markup color icon label time =
     concat
      [nl,
       ''              <div class="d-flex align-items-start">'',
       nl,
       ''                <span class="fs-5 me-2 '',
       color,
       ''">'',
       icon,
       ''</span>'',
       nl,
       ''                <div><div class="fw-medium '',
       color,
       ''">'',
       label,
       ''</div></div>'',
       nl,
       ''              </div>'',
       nl,
       ''              <small class="text-muted ms-auto mt-1">'',
       time,
       ''</small>'',
       nl,
       ''            '']\<close>

text \<open>Assigning the markup of the activity region replaces what was in it.\<close>

definition set_activity :: "string \<Rightarrow> page \<Rightarrow> page" where
  "set_activity html pg = pg\<lparr>activity_section := html, activity_list := []\<rparr>"

text \<open>
  The callback of \<open>forEach\<close> for one activity: the item that is appended, or the
  TypeError of reading \<open>act.color\<close> when \<open>act\<close> is \<open>null\<close>.
\<close>

definition render_item :: "platform \<Rightarrow> jsval \<Rightarrow> js_error + list_item" where
  "render_item P act =
     (case read_prop P act ''color'' of
        Inl e \<Rightarrow> Inl e
      | Inr color \<Rightarrow>
          Inr \<lparr>className =
                 ''list-group-item d-flex justify-content-between align-items-start flex-wrap px-0 py-2'',
               innerHTML = item_markup (ToString P color) (ToString P (get_prop act ''icon''))
                             (ToString P (get_prop act ''text''))
                             (date_text P (get_prop act ''time''))\<rparr>)"

fun append_items :: "platform \<Rightarrow> jsval list \<Rightarrow> page \<Rightarrow> page \<times> js_error option" where
  "append_items P [] pg = (pg, None)"
| "append_items P (act # rest) pg =
     (case render_item P act of
        Inl e \<Rightarrow> (pg, Some e)
      | Inr li \<Rightarrow> append_items P rest (pg\<lparr>activity_list := activity_list pg @ [li]\<rparr>))"

text \<open>
  The handler \<open>data => { ... }\<close> of \<open>loadDetails\<close>: the page it leaves, and the error it
  threw if it threw one.
\<close>

definition render_details :: "platform \<Rightarrow> jsval \<Rightarrow> page \<Rightarrow> page \<times> js_error option" where
  \<open>render_details P data pg =
     (case read_prop P data ''total_debt'' of
        Inl e \<Rightarrow> (pg, Some e)
      | Inr total_debt \<Rightarrow>
          (let total_paid = get_prop data ''total_paid'';
               pg1 = pg\<lparr>chart_section :=
                          chart_markup (ToString P total_debt) (ToString P total_paid)\<rparr>;
               pg2 = pg1\<lparr>frame_requests :=
                           frame_requests pg1 @ [(data, percentage P total_debt total_paid)]\<rparr>;
               acts = get_prop data ''recent_activities''
           in if truthy acts \<and> num_gt (ToNumber P (get_prop acts ''length'')) (Fin 0)
              then (case acts of
                      Arr xs \<Rightarrow> append_items P xs (set_activity activity_header pg2)
                    | _ \<Rightarrow>
                        (set_activity activity_header pg2,
                         Some \<lparr>err_name = ''TypeError'',
                               err_message = not_function_text P ''data.recent_activities.forEach''\<rparr>))
              else (set_activity ''<p class="text-muted text-center">No recent activities</p>'' pg2,
                    None)))\<close>

text \<open>The handler \<open>error => { ... }\<close> of the final \<open>catch\<close>.\<close>

definition on_error :: "js_error \<Rightarrow> page \<Rightarrow> page" where
  \<open>on_error e pg =
     set_activity (''<p class="text-danger">Activity load failed: '' @ err_message e @ ''</p>'')
       (pg\<lparr>console_errors := console_errors pg @ [e],
            chart_section := ''<p class="text-danger">Chart load failed: '' @ err_message e @ ''</p>''\<rparr>)\<close>

text \<open>
  The first handler, \<open>async response => { ... }\<close>: on a status that is not a success the
  body is read with its failure replaced by \<open>{}\<close>, and an Error is thrown.
\<close>

definition details_response :: "platform \<Rightarrow> response \<Rightarrow> jsval settled" where
  "details_response P res =
     (if \<not> resp_ok res
      then (let errData = (case resp_json res of Fulfilled v \<Rightarrow> v | Rejected e \<Rightarrow> Obj [])
            in Rejected (Error_new P (or_else (opt_prop errData ''error'')
                                        (Str ''Failed to fetch dashboard data.''))))
      else resp_json res)"

text \<open>\<open>loadDetails()\<close>, given what \<open>fetch('/home/details')\<close> settles with.\<close>

definition loadDetails :: "platform \<Rightarrow> response settled \<Rightarrow> page \<Rightarrow> page" where
  "loadDetails P outcome pg =
     (case outcome of
        Rejected e \<Rightarrow> on_error e pg
      | Fulfilled res \<Rightarrow>
          (case details_response P res of
             Rejected e \<Rightarrow> on_error e pg
           | Fulfilled data \<Rightarrow>
               (case render_details P data pg of
                  (pg', None) \<Rightarrow> pg'
                | (pg', Some e) \<Rightarrow> on_error e pg')))"


section \<open>Properties\<close>

subsection \<open>Rounding, digits and formatted text\<close>


lemma StringToNumber_abc: "StringToNumber ''abc'' = NaN"
  by (simp add: StringToNumber_def trim_def is_ws_def signed_decimal_def unsigned_decimal_def
      is_digit_def)









lemma strip_rev_chars: "set (strip_rev m cs) \<subseteq> set cs"
  by (induction cs) auto



lemma strip_zeros_chars: "set (strip_zeros m cs) \<subseteq> set cs"
  using strip_rev_chars [of m "rev cs"] by (simp add: strip_zeros_def)










lemma strip_zeros_000: "strip_zeros 0 ''000'' = []"
  by (simp add: strip_zeros_def)




lemma replicate_2: "replicate 2 c = [c, c]"
  by (simp add: numeral_2_eq_2)

lemma replicate_3: "replicate 3 c = [c, c, c]"
  by (simp add: numeral_3_eq_3)

lemmas format_eval = formatValue_def or_else_def format_fixed_def digits_of.simps
  digit_char_def group3_def pad_left_def strip_zeros_def replicate_2 replicate_3



lemma coerce_value:
  "ToNumber P (or_else v (Num (Fin 0))) = (if truthy v then ToNumber P v else Fin 0)"
  by (simp add: or_else_def)

lemma countUp_target:
  "map_option anim_to (snd (countUp P False start el v opts)) =
     Some (ToNumber P (or_else v (Num (Fin 0))))"
  by (simp add: countUp_def Let_def)



























lemma round_to_double_quarter: "round_to_double (1 / 4) = Fin (1 / 4)"
  by (simp add: round_to_double_def ilog2.simps round_half_even_def pow2_def)

lemma round_to_double_25: "round_to_double 25 = Fin 25"
  by (simp add: round_to_double_def ilog2.simps round_half_even_def pow2_def)

lemma percentage_numbers:
  "percentage P (Num d) (Num p) =
     (if num_gt d (Fin 0) then Math_round (num_mul (num_div p d) (Fin 100)) else Fin 0)"
  by (simp add: percentage_def)

lemma percentage_example: "percentage P (Num (Fin 1000)) (Num (Fin 250)) = Fin 25"
  by (simp add: percentage_def num_gt_def num_div_def num_mul_def round_to_double_quarter
      round_to_double_25)

lemma percentage_zero_debt: "percentage P (Num (Fin 0)) p = Fin 0"
  by (simp add: percentage_def num_gt_def)

lemma round_to_double_23_40: "round_to_double (23 / 40) = Fin (2589569785738035 / 4503599627370496)"
  by (simp add: round_to_double_def ilog2.simps round_half_even_def pow2_def)

lemma percentage_23_40: "percentage P (Num (Fin 40)) (Num (Fin 23)) = Fin 57"
  by (simp add: percentage_def num_gt_def num_div_def num_mul_def round_to_double_23_40
      round_to_double_def ilog2.simps round_half_even_def pow2_def)

subsection \<open>The details view: what the handlers keep and change\<close>

lemma append_items_keeps:
  "chart_section (fst (append_items P xs pg)) = chart_section pg
   \<and> activity_section (fst (append_items P xs pg)) = activity_section pg
   \<and> frame_requests (fst (append_items P xs pg)) = frame_requests pg
   \<and> console_errors (fst (append_items P xs pg)) = console_errors pg"
  by (induction xs arbitrary: pg) (auto split: sum.splits)




lemma loadDetails_ok:
  "data \<noteq> Null \<Longrightarrow> data \<noteq> Undefined \<Longrightarrow>
   loadDetails P (Fulfilled \<lparr>resp_ok = True, resp_json = Fulfilled data\<rparr>) pg =
     (case render_details P data pg of (pg', None) \<Rightarrow> pg' | (pg', Some e) \<Rightarrow> on_error e pg')"
  by (simp add: loadDetails_def details_response_def)

lemma render_details_frames:
  "data \<noteq> Null \<Longrightarrow> data \<noteq> Undefined \<Longrightarrow>
   frame_requests (fst (render_details P data pg)) =
     frame_requests pg @
       [(data, percentage P (get_prop data ''total_debt'') (get_prop data ''total_paid''))]"
  by (auto simp add: render_details_def read_prop_def Let_def set_activity_def append_items_keeps
      split: jsval.splits)

lemma on_error_frames: "frame_requests (on_error e pg) = frame_requests pg"
  by (simp add: on_error_def set_activity_def)

lemma loadDetails_frames:
  assumes "data \<noteq> Null" "data \<noteq> Undefined"
  shows "frame_requests (loadDetails P (Fulfilled \<lparr>resp_ok = True, resp_json = Fulfilled data\<rparr>) pg) =
     frame_requests pg @
       [(data, percentage P (get_prop data ''total_debt'') (get_prop data ''total_paid''))]"
proof -
  obtain pg' r where r: "render_details P data pg = (pg', r)"
    by (cases "render_details P data pg")
  with render_details_frames [OF assms, of P pg]
  have "frame_requests pg' = frame_requests pg @
       [(data, percentage P (get_prop data ''total_debt'') (get_prop data ''total_paid''))]"
    by simp
  with r assms show ?thesis
    by (cases r) (simp_all add: loadDetails_ok on_error_frames)
qed







subsection \<open>The metrics flow: what every reachable state satisfies\<close>














subsection \<open>Formatting\<close>



subsection \<open>Coercion of the value to show\<close>

text \<open>
  C7 as stated fails: the text \<open>abc\<close> is no number, and the value used for it is NaN,
  not 0; \<open>formatValue\<close> shows it as \<open>NaN\<close>.
\<close>

theorem zero_fallback_counterexample:
  "\<forall>P. ToNumber P (or_else (Str ''abc'') (Num (Fin 0))) = NaN
     \<and> map_option anim_to
         (snd (countUp P False (Fin 0)
                 \<lparr>classList = [], data_key = None, data_format = None, textContent = []\<rparr>
                 (Str ''abc'') None)) = Some NaN
     \<and> formatValue P (Str ''abc'') ''int'' = ''NaN''"
  by (simp add: countUp_target coerce_value StringToNumber_abc formatValue_def)

text \<open>
  C7, amended.  The fallback to 0 is for the falsy values (\<open>undefined\<close>, \<open>null\<close>,
  \<open>false\<close>, \<open>0\<close>, NaN and the empty string): the target of \<open>countUp\<close> and the number
  that \<open>formatValue\<close> shows are \<open>Number(v)\<close> for a truthy \<open>v\<close> and 0 for a falsy one.
\<close>

theorem zero_fallback:
  "ToNumber P (or_else v (Num (Fin 0))) = (if truthy v then ToNumber P v else Fin 0)
   \<and> map_option anim_to (snd (countUp P False start el v opts)) =
       Some (if truthy v then ToNumber P v else Fin 0)
   \<and> (\<not> truthy v \<longrightarrow> formatValue P v fmt = formatValue P (Num (Fin 0)) fmt)"
  by (simp add: countUp_target coerce_value formatValue_def)

theorem zero_fallback_witness:
  "\<forall>P. \<not> truthy Undefined
     \<and> ToNumber P (or_else Undefined (Num (Fin 0))) = Fin 0
     \<and> formatValue P Undefined ''int'' = ''0''
     \<and> formatValue P (Str []) ''money'' = ''0.00''"
proof
  fix P
  have z: "formatValue P (Num (Fin 0)) ''int'' = ''0''"
    "formatValue P (Num (Fin 0)) ''money'' = ''0.00''"
    by (simp_all add: format_eval)
  from zero_fallback [of P Undefined _ _ _ "''int''"] zero_fallback [of P "Str []" _ _ _ "''money''"] z
  show "\<not> truthy Undefined
     \<and> ToNumber P (or_else Undefined (Num (Fin 0))) = Fin 0
     \<and> formatValue P Undefined ''int'' = ''0''
     \<and> formatValue P (Str []) ''money'' = ''0.00''"
    by simp
qed

subsection \<open>The counter animation\<close>





subsection \<open>The details view\<close>

text \<open>
  C5.  The percentage is \<open>Math.round(total_paid / total_debt * 100)\<close> when
  \<open>total_debt > 0\<close> and 0 otherwise, whatever \<open>total_paid\<close> is; it is 25 for a debt of
  1000 with 250 paid, and 0 for a debt of 0.  It is the percentage handed to
  \<open>renderCharts\<close> on a successful fetch.  The operations are those of binary64 numbers.
\<close>

theorem percentage_formula:
  "percentage P (Num d) (Num p) =
     (if num_gt d (Fin 0) then Math_round (num_mul (num_div p d) (Fin 100)) else Fin 0)
   \<and> percentage P (Num (Fin 1000)) (Num (Fin 250)) = Fin 25
   \<and> percentage P (Num (Fin 0)) v = Fin 0
   \<and> (get_prop data ''total_debt'' = Num d \<and> get_prop data ''total_paid'' = Num p \<longrightarrow>
        frame_requests
          (loadDetails P (Fulfilled \<lparr>resp_ok = True, resp_json = Fulfilled data\<rparr>) pg) =
        frame_requests pg @
          [(data, if num_gt d (Fin 0) then Math_round (num_mul (num_div p d) (Fin 100))
                  else Fin 0)])"
proof -
  have "frame_requests
          (loadDetails P (Fulfilled \<lparr>resp_ok = True, resp_json = Fulfilled data\<rparr>) pg) =
        frame_requests pg @ [(data, percentage P (Num d) (Num p))]"
    if g: "get_prop data ''total_debt'' = Num d" "get_prop data ''total_paid'' = Num p"
  proof -
    from g(1) have "data \<noteq> Null" "data \<noteq> Undefined" by auto
    then show ?thesis using loadDetails_frames [of data P pg] g by simp
  qed
  then show ?thesis
    using percentage_numbers [of P d p] percentage_example [of P] percentage_zero_debt [of P v]
    by simp
qed

theorem percentage_formula_witness:
  "\<forall>P. get_prop (Obj [(''total_debt'', Num (Fin 1000)), (''total_paid'', Num (Fin 250))])
          ''total_debt'' = Num (Fin 1000)
     \<and> get_prop (Obj [(''total_debt'', Num (Fin 1000)), (''total_paid'', Num (Fin 250))])
          ''total_paid'' = Num (Fin 250)
     \<and> frame_requests
          (loadDetails P
             (Fulfilled \<lparr>resp_ok = True,
                         resp_json = Fulfilled (Obj [(''total_debt'', Num (Fin 1000)),
                                                     (''total_paid'', Num (Fin 250))])\<rparr>)
             \<lparr>chart_section = [], activity_section = [], activity_list = [],
              frame_requests = [], console_errors = []\<rparr>) =
         [(Obj [(''total_debt'', Num (Fin 1000)), (''total_paid'', Num (Fin 250))], Fin 25)]"
proof
  fix P
  let ?data = "Obj [(''total_debt'', Num (Fin 1000)), (''total_paid'', Num (Fin 250))]"
  let ?pg = "\<lparr>chart_section = [], activity_section = [], activity_list = [],
              frame_requests = [], console_errors = []\<rparr>"
  have g: "get_prop ?data ''total_debt'' = Num (Fin 1000)"
    "get_prop ?data ''total_paid'' = Num (Fin 250)"
    by simp_all
  have "frame_requests
          (loadDetails P (Fulfilled \<lparr>resp_ok = True, resp_json = Fulfilled ?data\<rparr>) ?pg) =
        frame_requests ?pg @ [(?data, percentage P (Num (Fin 1000)) (Num (Fin 250)))]"
    using percentage_formula [of P "Fin 1000" "Fin 250" Null ?data ?pg] g by simp
  with g percentage_example [of P]
  show "get_prop ?data ''total_debt'' = Num (Fin 1000)
     \<and> get_prop ?data ''total_paid'' = Num (Fin 250)
     \<and> frame_requests
          (loadDetails P (Fulfilled \<lparr>resp_ok = True, resp_json = Fulfilled ?data\<rparr>) ?pg) =
         [(?data, Fin 25)]"
    by simp
qed

text \<open>
  C10.  When the status is not a success and the body does not parse, the failure of
  \<open>response.json()\<close> is replaced by \<open>{}\<close>, and \<open>loadDetails\<close> fails with the message
  \<open>Failed to fetch dashboard data.\<close>, not with the parse error.
\<close>

theorem details_parse_failure_swallowed:
  assumes "\<not> resp_ok res" "resp_json res = Rejected e"
  shows "details_response P res =
           Rejected \<lparr>err_name = ''Error'', err_message = ''Failed to fetch dashboard data.''\<rparr>
       \<and> loadDetails P (Fulfilled res) pg =
           on_error \<lparr>err_name = ''Error'', err_message = ''Failed to fetch dashboard data.''\<rparr> pg"
  using assms
  by (simp add: loadDetails_def details_response_def opt_prop_def or_else_def Error_new_def)

theorem details_parse_failure_swallowed_witness:
  \<open>\<forall>P. \<not> resp_ok \<lparr>resp_ok = False,
                      resp_json = Rejected \<lparr>err_name = ''SyntaxError'',
                                             err_message = ''Unexpected token < in JSON at position 0''\<rparr>\<rparr>
     \<and> chart_section
          (loadDetails P
             (Fulfilled \<lparr>resp_ok = False,
                         resp_json = Rejected \<lparr>err_name = ''SyntaxError'',
                                                err_message = ''Unexpected token < in JSON at position 0''\<rparr>\<rparr>)
             \<lparr>chart_section = [], activity_section = [], activity_list = [],
              frame_requests = [], console_errors = []\<rparr>) =
         ''<p class="text-danger">Chart load failed: Failed to fetch dashboard data.</p>''
     \<and> activity_section
          (loadDetails P
             (Fulfilled \<lparr>resp_ok = False,
                         resp_json = Rejected \<lparr>err_name = ''SyntaxError'',
                                                err_message = ''Unexpected token < in JSON at position 0''\<rparr>\<rparr>)
             \<lparr>chart_section = [], activity_section = [], activity_list = [],
              frame_requests = [], console_errors = []\<rparr>) =
         ''<p class="text-danger">Activity load failed: Failed to fetch dashboard data.</p>''\<close>
proof
  fix P
  let ?e = "\<lparr>err_name = ''SyntaxError'', err_message = ''Unexpected token < in JSON at position 0''\<rparr>"
  let ?res = "\<lparr>resp_ok = False, resp_json = Rejected ?e\<rparr>"
  let ?pg = "\<lparr>chart_section = [], activity_section = [], activity_list = [],
              frame_requests = [], console_errors = []\<rparr>"
  have h: "\<not> resp_ok ?res" "resp_json ?res = Rejected ?e" by simp_all
  from details_parse_failure_swallowed [OF h, of P ?pg]
  show \<open>\<not> resp_ok ?res
     \<and> chart_section (loadDetails P (Fulfilled ?res) ?pg) =
         ''<p class="text-danger">Chart load failed: Failed to fetch dashboard data.</p>''
     \<and> activity_section (loadDetails P (Fulfilled ?res) ?pg) =
         ''<p class="text-danger">Activity load failed: Failed to fetch dashboard data.</p>''\<close>
    by (simp add: on_error_def set_activity_def)
qed






subsection \<open>The metrics request\<close>



text \<open>
  C2 as stated fails.  A response whose body does not parse makes \<open>fetchMetricsOnce\<close>
  fail with the parse error, whose message is neither an \<open>error\<close> field nor the default
  message; and a body \<open>{"ok": true, "counts": null}\<close> has a \<open>counts\<close> field, yet the call
  fails.
\<close>

theorem fetchMetricsOnce_outcome_counterexample:
  "\<forall>P. fetchMetricsOnce_settle P
          (Fulfilled \<lparr>resp_ok = False,
                      resp_json = Rejected \<lparr>err_name = ''SyntaxError'',
                                             err_message = ''Unexpected token < in JSON at position 0''\<rparr>\<rparr>) =
        Rejected \<lparr>err_name = ''SyntaxError'',
                  err_message = ''Unexpected token < in JSON at position 0''\<rparr>
     \<and> ''Unexpected token < in JSON at position 0'' \<noteq> ''Failed to fetch metrics.''
     \<and> map_of [(''ok'', Bool True), (''counts'', Null)] ''counts'' = Some Null
     \<and> fetchMetricsOnce_settle P
          (Fulfilled \<lparr>resp_ok = True,
                      resp_json = Fulfilled (Obj [(''ok'', Bool True), (''counts'', Null)])\<rparr>) =
        Rejected \<lparr>err_name = ''Error'', err_message = ''Failed to fetch metrics.''\<rparr>"
  by (simp add: fetchMetricsOnce_settle_def read_prop_def opt_prop_def or_else_def Error_new_def)

text \<open>
  C2, amended.  When the request or the parsing of the body fails, \<open>fetchMetricsOnce\<close>
  fails with that error.  When the body parses to a value other than \<open>null\<close>, it resolves
  with \<open>counts\<close> exactly when the status is a success and \<open>ok\<close> and \<open>counts\<close> are both
  truthy; otherwise it fails with an Error whose message is the \<open>error\<close> field when that
  is truthy and \<open>Failed to fetch metrics.\<close> when it is not.  A body \<open>null\<close> gives that
  default message on a status that is not a success, and a TypeError on a success.
\<close>

theorem fetchMetricsOnce_outcome:
  "fetchMetricsOnce_settle P (Rejected e) = Rejected e
   \<and> (resp_json res = Rejected e \<longrightarrow> fetchMetricsOnce_settle P (Fulfilled res) = Rejected e)
   \<and> (resp_json res = Fulfilled data \<and> data \<noteq> Null \<and> data \<noteq> Undefined \<longrightarrow>
        fetchMetricsOnce_settle P (Fulfilled res) =
          (if resp_ok res \<and> truthy (get_prop data ''ok'') \<and> truthy (get_prop data ''counts'')
           then Fulfilled (get_prop data ''counts'')
           else Rejected \<lparr>err_name = ''Error'',
                  err_message = (if truthy (get_prop data ''error'')
                                 then ToString P (get_prop data ''error'')
                                 else ''Failed to fetch metrics.'')\<rparr>))
   \<and> (resp_json res = Fulfilled Null \<longrightarrow>
        fetchMetricsOnce_settle P (Fulfilled res) =
          (if resp_ok res
           then Rejected \<lparr>err_name = ''TypeError'', err_message = null_read_text P Null ''ok''\<rparr>
           else Rejected \<lparr>err_name = ''Error'', err_message = ''Failed to fetch metrics.''\<rparr>))"
  by (auto simp add: fetchMetricsOnce_settle_def read_prop_def opt_prop_def or_else_def
      Error_new_def)

theorem fetchMetricsOnce_outcome_witness:
  "\<forall>P. fetchMetricsOnce_settle P
          (Fulfilled \<lparr>resp_ok = True,
                      resp_json = Fulfilled (Obj [(''ok'', Bool True),
                                                  (''counts'', Obj [(''orders'', Num (Fin 5))])])\<rparr>) =
        Fulfilled (Obj [(''orders'', Num (Fin 5))])
     \<and> fetchMetricsOnce_settle P
          (Fulfilled \<lparr>resp_ok = False,
                      resp_json = Fulfilled (Obj [(''ok'', Bool False),
                                                  (''error'', Str ''Not signed in'')])\<rparr>) =
        Rejected \<lparr>err_name = ''Error'', err_message = ''Not signed in''\<rparr>
     \<and> fetchMetricsOnce_settle P
          (Fulfilled \<lparr>resp_ok = True, resp_json = Fulfilled (Obj [(''ok'', Bool True)])\<rparr>) =
        Rejected \<lparr>err_name = ''Error'', err_message = ''Failed to fetch metrics.''\<rparr>
     \<and> fetchMetricsOnce_settle P
          (Fulfilled \<lparr>resp_ok = False,
                      resp_json = Rejected \<lparr>err_name = ''SyntaxError'', err_message = ''bad''\<rparr>\<rparr>) =
        Rejected \<lparr>err_name = ''SyntaxError'', err_message = ''bad''\<rparr>"
proof
  fix P
  let ?d1 = "Obj [(''ok'', Bool True), (''counts'', Obj [(''orders'', Num (Fin 5))])]"
  let ?d2 = "Obj [(''ok'', Bool False), (''error'', Str ''Not signed in'')]"
  let ?d3 = "Obj [(''ok'', Bool True)]"
  let ?e = "\<lparr>err_name = ''SyntaxError'', err_message = ''bad''\<rparr>"
  from fetchMetricsOnce_outcome [of P _ "\<lparr>resp_ok = True, resp_json = Fulfilled ?d1\<rparr>" ?d1]
  have r1: "fetchMetricsOnce_settle P (Fulfilled \<lparr>resp_ok = True, resp_json = Fulfilled ?d1\<rparr>) =
              Fulfilled (Obj [(''orders'', Num (Fin 5))])"
    by simp
  from fetchMetricsOnce_outcome [of P _ "\<lparr>resp_ok = False, resp_json = Fulfilled ?d2\<rparr>" ?d2]
  have r2: "fetchMetricsOnce_settle P (Fulfilled \<lparr>resp_ok = False, resp_json = Fulfilled ?d2\<rparr>) =
              Rejected \<lparr>err_name = ''Error'', err_message = ''Not signed in''\<rparr>"
    by simp
  from fetchMetricsOnce_outcome [of P _ "\<lparr>resp_ok = True, resp_json = Fulfilled ?d3\<rparr>" ?d3]
  have r3: "fetchMetricsOnce_settle P (Fulfilled \<lparr>resp_ok = True, resp_json = Fulfilled ?d3\<rparr>) =
              Rejected \<lparr>err_name = ''Error'', err_message = ''Failed to fetch metrics.''\<rparr>"
    by simp
  from fetchMetricsOnce_outcome [of P ?e "\<lparr>resp_ok = False, resp_json = Rejected ?e\<rparr>"]
  have r4: "fetchMetricsOnce_settle P (Fulfilled \<lparr>resp_ok = False, resp_json = Rejected ?e\<rparr>) =
              Rejected ?e"
    by simp
  from r1 r2 r3 r4
  show "fetchMetricsOnce_settle P (Fulfilled \<lparr>resp_ok = True, resp_json = Fulfilled ?d1\<rparr>) =
          Fulfilled (Obj [(''orders'', Num (Fin 5))])
     \<and> fetchMetricsOnce_settle P (Fulfilled \<lparr>resp_ok = False, resp_json = Fulfilled ?d2\<rparr>) =
          Rejected \<lparr>err_name = ''Error'', err_message = ''Not signed in''\<rparr>
     \<and> fetchMetricsOnce_settle P (Fulfilled \<lparr>resp_ok = True, resp_json = Fulfilled ?d3\<rparr>) =
          Rejected \<lparr>err_name = ''Error'', err_message = ''Failed to fetch metrics.''\<rparr>
     \<and> fetchMetricsOnce_settle P (Fulfilled \<lparr>resp_ok = False, resp_json = Rejected ?e\<rparr>) =
          Rejected ?e"
    by blast
qed

end
